theory Spec2Isabelle
  imports Complex_Main
begin

section \<open>100 Days Better Me: the day-progression logic of script.js\<close>

text \<open>
  The script keeps one mutable object \<open>appData\<close> (current day, streak, a sparse mapping
  from day number to that day's record, and a motivation text). The model passes it
  explicitly: every function that mutates \<open>appData\<close> takes it and returns the new one.
  Rendering, toasts, alerts and \<open>localStorage\<close> writes do not feed back into \<open>appData\<close>
  and are left out; an alert followed by an early \<open>return\<close> is an outcome value.
\<close>

subsection \<open>Numbers\<close>

text \<open>
  A JavaScript number is a double: \<open>NaN\<close>, one of the two infinities, or a finite value.
  Every finite double is a rational, and \<open><\<close>, \<open><=\<close>, \<open>>=\<close> on finite doubles agree
  with the order of the rationals (\<open>-0\<close> compares like \<open>0\<close>), so a finite value is a
  \<^typ>\<open>rat\<close>. Any comparison with \<open>NaN\<close> is false.
\<close>

datatype jsnum = NaN | NegInfinity | PosInfinity | Finite rat

fun js_lt :: "jsnum \<Rightarrow> jsnum \<Rightarrow> bool" where
  "js_lt NaN y = False"
| "js_lt x NaN = False"
| "js_lt (Finite a) (Finite b) = (a < b)"
| "js_lt x NegInfinity = False"
| "js_lt NegInfinity y = True"
| "js_lt PosInfinity y = False"
| "js_lt (Finite a) PosInfinity = True"

fun js_le :: "jsnum \<Rightarrow> jsnum \<Rightarrow> bool" where
  "js_le NaN y = False"
| "js_le x NaN = False"
| "js_le (Finite a) (Finite b) = (a \<le> b)"
| "js_le NegInfinity y = True"
| "js_le x PosInfinity = True"
| "js_le PosInfinity y = False"
| "js_le (Finite a) NegInfinity = False"

definition js_ge :: "jsnum \<Rightarrow> jsnum \<Rightarrow> bool" where
  "js_ge x y = js_le y x"

definition isNaN :: "jsnum \<Rightarrow> bool" where
  "isNaN x = (x = NaN)"

subsection \<open>Data model\<close>

text \<open>
  The habit keys are the five property names of \<open>HABIT_RULES\<close>; every call in the script
  passes one of them, so the key is an enumeration and the \<open>default\<close> branch of the
  \<open>switch\<close> in \<open>isHabitCompleted\<close> has no case here.
\<close>

datatype HabitKind = Sleep | Water | Workout | Study | Food

text \<open>\<open>{ min: 7 }\<close>, ..., \<open>{ min: 2000, max: 2500 }\<close>: \<open>max\<close> is absent except for food.\<close>

record HabitRule =
  min_bound :: rat
  max_bound :: "rat option"

definition HABIT_RULES :: "HabitKind \<rightharpoonup> HabitRule" where
  "HABIT_RULES habit =
     (case habit of
        Sleep \<Rightarrow> Some \<lparr>min_bound = 7, max_bound = None\<rparr>
      | Water \<Rightarrow> Some \<lparr>min_bound = 8, max_bound = None\<rparr>
      | Workout \<Rightarrow> Some \<lparr>min_bound = 30, max_bound = None\<rparr>
      | Study \<Rightarrow> Some \<lparr>min_bound = 60, max_bound = None\<rparr>
      | Food \<Rightarrow> Some \<lparr>min_bound = 2000, max_bound = Some 2500\<rparr>)"

definition POINTS_PER_HABIT :: int where
  "POINTS_PER_HABIT = 20"

definition MAX_SCORE :: int where
  "MAX_SCORE = 100"

text \<open>
  One day's object. \<open>dayData[habit]\<close> is \<open>habitValue dayData habit\<close>, with \<open>None\<close> for
  \<open>null\<close>; \<open>dayData.completedHabits[habit]\<close> is \<open>completedHabits dayData habit\<close>.
\<close>

record DayRecord =
  habitValue :: "HabitKind \<Rightarrow> jsnum option"
  completedHabits :: "HabitKind \<Rightarrow> bool"
  score :: int
  completed :: bool

text \<open>
  \<open>appData\<close>. Day numbers and the streak are JavaScript numbers holding integers (exact
  below \<open>2^53\<close>), so they are \<^typ>\<open>int\<close>; \<open>days\<close> is the sparse object keyed by day number.
\<close>

record AppData =
  currentDay :: int
  streak :: int
  days :: "int \<rightharpoonup> DayRecord"
  whyStarted :: string

text \<open>The object literal used when nothing is stored, and again by \<open>restartChallenge\<close>.\<close>

definition freshAppData :: AppData where
  "freshAppData = \<lparr>currentDay = 1, streak = 0, days = Map.empty, whyStarted = ''''\<rparr>"

definition habits :: "HabitKind list" where
  "habits = [Sleep, Water, Workout, Study, Food]"

subsection \<open>Utility functions\<close>

definition defaultDayData :: DayRecord where
  "defaultDayData =
     \<lparr>habitValue = (\<lambda>habit. None), completedHabits = (\<lambda>habit. False),
      score = 0, completed = False\<rparr>"

text \<open>
  \<open>getCurrentDayData\<close> creates the default object on first access and returns the stored
  one; the model returns the object together with the state that now holds it.
\<close>

definition getCurrentDayData :: "AppData \<Rightarrow> DayRecord \<times> AppData" where
  "getCurrentDayData appData =
     (let day = currentDay appData in
      case days appData day of
        None \<Rightarrow> (defaultDayData, appData\<lparr>days := (days appData)(day \<mapsto> defaultDayData)\<rparr>)
      | Some dayData \<Rightarrow> (dayData, appData))"

definition isHabitCompleted :: "HabitKind \<Rightarrow> jsnum option \<Rightarrow> bool" where
  "isHabitCompleted habit v =
     (case v of
        None \<Rightarrow> False
      | Some val \<Rightarrow>
          (case HABIT_RULES habit of
             None \<Rightarrow> False
           | Some rule \<Rightarrow>
               (case habit of
                  Sleep \<Rightarrow> js_ge val (Finite (min_bound rule))
                | Water \<Rightarrow> js_ge val (Finite (min_bound rule))
                | Workout \<Rightarrow> js_ge val (Finite (min_bound rule))
                | Study \<Rightarrow> js_ge val (Finite (min_bound rule))
                | Food \<Rightarrow>
                    js_ge val (Finite (min_bound rule)) \<and>
                    (case max_bound rule of
                       None \<Rightarrow> False
                     | Some m \<Rightarrow> js_le val (Finite m)))))"

definition calculateHabitScore :: "HabitKind \<Rightarrow> jsnum option \<Rightarrow> int" where
  "calculateHabitScore habit v =
     (if isHabitCompleted habit v then POINTS_PER_HABIT else 0)"

definition calculateDayScore :: "DayRecord \<Rightarrow> int" where
  "calculateDayScore dayData =
     fold (\<lambda>habit totalScore. totalScore + calculateHabitScore habit (habitValue dayData habit))
       habits 0"

definition areAllHabitsCompleted :: "DayRecord \<Rightarrow> bool" where
  "areAllHabitsCompleted dayData =
     list_all (\<lambda>habit. completedHabits dayData habit = True) habits"

subsection \<open>Saving a habit, completing a day\<close>

text \<open>
  What a call of \<open>saveHabit\<close> ends in: one of its three alerts with an early return, the
  feedback for a saved habit (with \<open>isCompleted\<close>), or the completion of the day.
\<close>

datatype Outcome = InputNotFound | InvalidInput | DayLocked | HabitSaved bool | DayCompleted

text \<open>
  \<open>dayData\<close> is the object stored under \<open>appData.days[appData.currentDay]\<close>, so writing
  \<open>dayData.completed\<close> writes the stored object: the model stores the updated record back
  under the day it was read from.
\<close>

definition completeCurrentDay :: "AppData \<Rightarrow> AppData" where
  "completeCurrentDay appData =
     (let (dayData, appData1) = getCurrentDayData appData;
          completedDayNum = currentDay appData1;
          appData2 = appData1\<lparr>days := (days appData1)(completedDayNum \<mapsto> dayData\<lparr>completed := True\<rparr>)\<rparr>;
          appData3 = appData2\<lparr>streak := streak appData2 + 1\<rparr>
      in if currentDay appData3 < 100
         then appData3\<lparr>currentDay := currentDay appData3 + 1\<rparr>
         else appData3)"

text \<open>
  \<open>saveHabit habit input appData\<close>: \<open>input\<close> is \<open>None\<close> when \<open>document.getElementById(habit)\<close>
  finds no element, and otherwise \<open>Some\<close> of what the built-in \<open>parseFloat\<close> returns on the
  element's text (\<open>NaN\<close> for text that starts with no number, \<open>PosInfinity\<close> for the text
  \<open>Infinity\<close>). The checks run in the source's order: element, number, lock.
\<close>

definition saveHabit :: "HabitKind \<Rightarrow> jsnum option \<Rightarrow> AppData \<Rightarrow> Outcome \<times> AppData" where
  "saveHabit habit input appData =
     (case input of
        None \<Rightarrow> (InputNotFound, appData)
      | Some val \<Rightarrow>
          if isNaN val \<or> js_lt val (Finite 0) then (InvalidInput, appData)
          else
            (let (dayData, appData1) = getCurrentDayData appData in
             if completed dayData then (DayLocked, appData1)
             else
               (let dayData1 = dayData\<lparr>habitValue := (habitValue dayData)(habit := Some val)\<rparr>;
                    isCompleted = isHabitCompleted habit (Some val);
                    dayData2 = dayData1\<lparr>completedHabits := (completedHabits dayData1)(habit := isCompleted)\<rparr>;
                    dayData3 = dayData2\<lparr>score := calculateDayScore dayData2\<rparr>;
                    appData2 = appData1\<lparr>days := (days appData1)(currentDay appData1 \<mapsto> dayData3)\<rparr>
                in if areAllHabitsCompleted dayData3
                   then (DayCompleted, completeCurrentDay appData2)
                   else (HabitSaved isCompleted, appData2))))"

text \<open>
  The only effect of \<open>loadCurrentDayUI\<close> on \<open>appData\<close> is that of its
  \<open>getCurrentDayData\<close> call. \<open>completeCurrentDay\<close> and \<open>restartChallenge\<close> run it from a
  timer, after they have returned.
\<close>

definition loadCurrentDayUI :: "AppData \<Rightarrow> AppData" where
  "loadCurrentDayUI appData = snd (getCurrentDayData appData)"

subsection \<open>Streak\<close>

text \<open>
  The \<open>for\<close> loop of \<open>updateStreak\<close>: \<open>day\<close> runs down from the current day while
  \<open>day >= 1\<close>, and the loop breaks at the first day with no record or an incomplete one.
\<close>

function streakLoop :: "(int \<rightharpoonup> DayRecord) \<Rightarrow> int \<Rightarrow> int \<Rightarrow> int" where
  "streakLoop ds day n =
     (if day \<ge> 1
      then (case ds day of
              None \<Rightarrow> n
            | Some dayData \<Rightarrow> if completed dayData then streakLoop ds (day - 1) (n + 1) else n)
      else n)"
  by pat_completeness auto
termination
  by (relation "measure (\<lambda>(ds, day, n). nat day)") auto

declare streakLoop.simps [simp del]

definition updateStreak :: "AppData \<Rightarrow> AppData" where
  "updateStreak appData = appData\<lparr>streak := streakLoop (days appData) (currentDay appData) 0\<rparr>"

subsection \<open>Motivation, restart\<close>

text \<open>\<open>saveWhy\<close>: the argument is the text of the \<open>why\<close> element, \<open>None\<close> when it is missing.\<close>

definition saveWhy :: "string option \<Rightarrow> AppData \<Rightarrow> AppData" where
  "saveWhy why appData =
     (case why of None \<Rightarrow> appData | Some txt \<Rightarrow> appData\<lparr>whyStarted := txt\<rparr>)"

text \<open>
  \<open>restartChallenge\<close>: the two booleans are the user's answers to the two \<open>confirm\<close>
  dialogs, which are shown only when day 100 is completed.
\<close>

definition restartChallenge :: "bool \<Rightarrow> bool \<Rightarrow> AppData \<Rightarrow> AppData" where
  "restartChallenge answerRestart answerKeep appData =
     (let isCompleted =
            (currentDay appData \<ge> 100 \<and>
             (case days appData 100 of None \<Rightarrow> False | Some dayData \<Rightarrow> completed dayData = True));
          confirmed = (if isCompleted then answerRestart else True);
          keepMotivation = (if isCompleted \<and> confirmed then answerKeep else True)
      in if confirmed
         then \<lparr>currentDay = 1, streak = 0, days = Map.empty,
               whyStarted = (if keepMotivation then whyStarted appData else [])\<rparr>
         else appData)"

text \<open>Whether day \<open>d\<close> has a record that is marked completed (\<open>dayData && dayData.completed\<close>).\<close>

definition dayIsCompleted :: "AppData \<Rightarrow> int \<Rightarrow> bool" where
  "dayIsCompleted appData d =
     (case days appData d of None \<Rightarrow> False | Some dayData \<Rightarrow> completed dayData)"

subsection \<open>Example states\<close>

text \<open>
  A record with all five habits met and the day not yet marked (what \<open>saveHabit\<close> hands
  to \<open>completeCurrentDay\<close>), on day 100 and on day 3, and day 100 after its completion.
\<close>

definition allDoneRecord :: DayRecord where
  "allDoneRecord =
     \<lparr>habitValue =
        (\<lambda>habit. case habit of
           Sleep \<Rightarrow> Some (Finite 8) | Water \<Rightarrow> Some (Finite 8) | Workout \<Rightarrow> Some (Finite 30)
         | Study \<Rightarrow> Some (Finite 60) | Food \<Rightarrow> Some (Finite 2200)),
      completedHabits = (\<lambda>habit. True), score = 100, completed = False\<rparr>"

definition lastDayDone :: AppData where
  "lastDayDone =
     \<lparr>currentDay = 100, streak = 99, days = [100 \<mapsto> allDoneRecord], whyStarted = ''health''\<rparr>"

definition thirdDayDone :: AppData where
  "thirdDayDone =
     \<lparr>currentDay = 3, streak = 2, days = [3 \<mapsto> allDoneRecord], whyStarted = ''health''\<rparr>"

definition lastDayLocked :: AppData where
  "lastDayLocked =
     \<lparr>currentDay = 100, streak = 100, days = [100 \<mapsto> allDoneRecord\<lparr>completed := True\<rparr>],
      whyStarted = ''health''\<rparr>"

text \<open>Days 1 to 3 completed, with the current day 4 and no record for it, or still 3.\<close>

definition completedDay :: DayRecord where
  "completedDay = allDoneRecord\<lparr>completed := True\<rparr>"

definition threeDaysThenFourth :: AppData where
  "threeDaysThenFourth =
     \<lparr>currentDay = 4, streak = 3,
      days = [1 \<mapsto> completedDay, 2 \<mapsto> completedDay, 3 \<mapsto> completedDay],
      whyStarted = ''health''\<rparr>"

definition threeDaysOnThird :: AppData where
  "threeDaysOnThird = threeDaysThenFourth\<lparr>currentDay := 3\<rparr>"

text \<open>\<open>dayData && dayData.completed\<close> for the record stored under \<open>d\<close>.\<close>

definition completedAt :: "(int \<rightharpoonup> DayRecord) \<Rightarrow> int \<Rightarrow> bool" where
  "completedAt ds d = (case ds d of None \<Rightarrow> False | Some r \<Rightarrow> completed r)"

subsection \<open>Consistency of a day's record\<close>

text \<open>
  The completion flags of a record follow its values when each flag is what
  \<open>isHabitCompleted\<close> gives on the stored value, as \<open>saveHabit\<close> leaves them. A record
  read from storage need not be so: \<open>flagsOnlyRecord\<close> has every flag set and no value.
\<close>

definition flagsFollowValues :: "DayRecord \<Rightarrow> bool" where
  "flagsFollowValues dayData =
     list_all (\<lambda>habit. completedHabits dayData habit = isHabitCompleted habit (habitValue dayData habit))
       habits"

definition flagsOnlyRecord :: DayRecord where
  "flagsOnlyRecord = defaultDayData\<lparr>completedHabits := (\<lambda>habit. True)\<rparr>"

subsection \<open>Storing and loading\<close>

text \<open>
  \<open>saveData\<close> stores the text \<open>JSON.stringify(appData)\<close>, and line 23 parses that text
  back at the next page load. \<open>JSON.stringify\<close> writes \<open>null\<close> for \<open>NaN\<close> and for the two
  infinities, and a finite number, a boolean, a string and a property name read back as
  they were written. So of a state only the habit values can change on the way:
  \<open>saveData appData\<close> is the object that line 23 reads back from what \<open>saveData\<close> stored.
\<close>

definition storedNumber :: "jsnum option \<Rightarrow> jsnum option" where
  "storedNumber v = (case v of Some (Finite q) \<Rightarrow> Some (Finite q) | _ \<Rightarrow> None)"

definition storedDayData :: "DayRecord \<Rightarrow> DayRecord" where
  "storedDayData dayData =
     dayData\<lparr>habitValue := (\<lambda>habit. storedNumber (habitValue dayData habit))\<rparr>"

definition saveData :: "AppData \<Rightarrow> AppData" where
  "saveData appData =
     appData\<lparr>days := (\<lambda>day. map_option storedDayData (days appData day))\<rparr>"

text \<open>
  \<open>init\<close>, on the object that line 23 produced. In an \<^typ>\<open>AppData\<close> the day and the
  streak are numbers and \<open>days\<close> is an object holding day records, so of the three
  guards only the tests \<open>currentDay < 1\<close> and \<open>streak < 0\<close> can fire, and nothing in the
  \<open>try\<close> block throws. Then come \<open>updateStreak\<close> and \<open>loadCurrentDayUI\<close>; the calls after
  them (calendar, motivation, navigation, the final \<open>saveData\<close>) leave \<open>appData\<close> as it
  is. Stored text that is no JSON, or whose properties have other types, is outside
  \<^typ>\<open>AppData\<close> and outside this model.
\<close>

definition init :: "AppData \<Rightarrow> AppData" where
  "init appData =
     (let appData1 = (if currentDay appData < 1 then appData\<lparr>currentDay := 1\<rparr> else appData);
          appData2 = (if streak appData1 < 0 then appData1\<lparr>streak := 0\<rparr> else appData1);
          appData3 = updateStreak appData2
      in loadCurrentDayUI appData3)"

subsection \<open>States the script can reach\<close>

text \<open>
  From the fresh object, by the script's entry points and by a page reload, which runs
  \<open>init\<close> on what was stored. Every change of \<open>appData\<close> but the default creation of the
  current day's record is followed by \<open>saveData\<close>, and \<open>init\<close> creates that record again,
  so a reload from the stored text and a reload from the state end in the same state.
  \<open>completeCurrentDay\<close> is called from one place only, under the test
  \<open>areAllHabitsCompleted(dayData)\<close>; the rule for it alone keeps that test.
\<close>

inductive reachable :: "AppData \<Rightarrow> bool" where
  fresh: "reachable freshAppData"
| save: "reachable a \<Longrightarrow> reachable (snd (saveHabit habit input a))"
| load: "reachable a \<Longrightarrow> reachable (loadCurrentDayUI a)"
| complete: "reachable a \<Longrightarrow> areAllHabitsCompleted (fst (getCurrentDayData a)) \<Longrightarrow>
             reachable (completeCurrentDay a)"
| recount: "reachable a \<Longrightarrow> reachable (updateStreak a)"
| why: "reachable a \<Longrightarrow> reachable (saveWhy w a)"
| restart: "reachable a \<Longrightarrow> reachable (restartChallenge answerRestart answerKeep a)"
| reload: "reachable a \<Longrightarrow> reachable (init (saveData a))"

text \<open>
  A session that breaks the score of day 1: the sleep field holds the text \<open>Infinity\<close>
  and is saved, the page is reloaded, and the water field is saved with 8.
\<close>

definition sleepInfinity :: AppData where
  "sleepInfinity = snd (saveHabit Sleep (Some PosInfinity) freshAppData)"

definition sleepInfinityReloaded :: AppData where
  "sleepInfinityReloaded = init (saveData sleepInfinity)"

definition thenWater :: AppData where
  "thenWater = snd (saveHabit Water (Some (Finite 8)) sleepInfinityReloaded)"

text \<open>A stored object with the current day 101, and one with the current day 0.\<close>

definition storedPastHundred :: AppData where
  "storedPastHundred = \<lparr>currentDay = 101, streak = 0, days = Map.empty, whyStarted = []\<rparr>"

definition storedDayZero :: AppData where
  "storedDayZero = \<lparr>currentDay = 0, streak = - 2, days = Map.empty, whyStarted = []\<rparr>"

section \<open>Scoring\<close>

lemma js_ge_Finite [simp]: "js_ge (Finite a) (Finite b) = (b \<le> a)"
  by (simp add: js_ge_def)

lemma isHabitCompleted_None [simp]: "isHabitCompleted habit None = False"
  by (simp add: isHabitCompleted_def)

lemma isHabitCompleted_Some:
  "isHabitCompleted habit (Some v) =
     (case habit of
        Sleep \<Rightarrow> js_ge v (Finite 7)
      | Water \<Rightarrow> js_ge v (Finite 8)
      | Workout \<Rightarrow> js_ge v (Finite 30)
      | Study \<Rightarrow> js_ge v (Finite 60)
      | Food \<Rightarrow> js_ge v (Finite 2000) \<and> js_le v (Finite 2500))"
  by (cases habit) (simp_all add: isHabitCompleted_def HABIT_RULES_def)

text \<open>
  C2. For a habit other than food, a set value completes the habit exactly when it is at
  least the habit's minimum (7, 8, 30, 60); for food, exactly when it lies between 2000
  and 2500, both included; an unset value never completes a habit. The comparison is
  JavaScript's own on the value as entered: on a finite value it is the exact order of
  the rationals, with no rounding, so 6.99 hours of sleep fail and 7 pass.
\<close>

theorem isHabitCompleted_threshold:
  "isHabitCompleted Sleep (Some v) = js_ge v (Finite 7) \<and>
   isHabitCompleted Water (Some v) = js_ge v (Finite 8) \<and>
   isHabitCompleted Workout (Some v) = js_ge v (Finite 30) \<and>
   isHabitCompleted Study (Some v) = js_ge v (Finite 60) \<and>
   isHabitCompleted Food (Some v) = (js_ge v (Finite 2000) \<and> js_le v (Finite 2500)) \<and>
   isHabitCompleted habit None = False \<and>
   isHabitCompleted habit (Some (Finite q)) =
     (case HABIT_RULES habit of
        None \<Rightarrow> False
      | Some rule \<Rightarrow>
          (case max_bound rule of
             None \<Rightarrow> min_bound rule \<le> q
           | Some m \<Rightarrow> min_bound rule \<le> q \<and> q \<le> m))"
  by (cases habit) (simp_all add: isHabitCompleted_Some HABIT_RULES_def)

theorem isHabitCompleted_threshold_witness:
  "isHabitCompleted Sleep (Some (Finite (699 / 100))) = False \<and>
   isHabitCompleted Sleep (Some (Finite 7)) = True \<and>
   isHabitCompleted Food (Some (Finite (5001 / 2))) = False \<and>
   isHabitCompleted Food (Some (Finite 2500)) = True \<and>
   isHabitCompleted Study (Some PosInfinity) = True \<and>
   isHabitCompleted Food (Some PosInfinity) = False \<and>
   isHabitCompleted Water (Some NaN) = False"
  using isHabitCompleted_threshold [of "Finite (699 / 100)" Sleep "699 / 100"]
    isHabitCompleted_threshold [of "Finite 7" Sleep 7]
    isHabitCompleted_threshold [of "Finite (5001 / 2)" Food "5001 / 2"]
    isHabitCompleted_threshold [of "Finite 2500" Food 2500]
    isHabitCompleted_threshold [of PosInfinity Food 0]
    isHabitCompleted_threshold [of NaN Water 0]
  by (simp add: js_ge_def)

lemma calculateDayScore_unfold:
  "calculateDayScore r =
     (if isHabitCompleted Sleep (habitValue r Sleep) then 20 else 0) +
     (if isHabitCompleted Water (habitValue r Water) then 20 else 0) +
     (if isHabitCompleted Workout (habitValue r Workout) then 20 else 0) +
     (if isHabitCompleted Study (habitValue r Study) then 20 else 0) +
     (if isHabitCompleted Food (habitValue r Food) then 20 else 0)"
  by (simp add: calculateDayScore_def habits_def calculateHabitScore_def POINTS_PER_HABIT_def)

lemma all_habits: "(\<forall>habit. P habit) = (P Sleep \<and> P Water \<and> P Workout \<and> P Study \<and> P Food)"
proof
  assume r: "P Sleep \<and> P Water \<and> P Workout \<and> P Study \<and> P Food"
  show "\<forall>habit. P habit"
  proof
    fix habit
    from r show "P habit" by (cases habit) simp_all
  qed
qed simp

lemma flagsFollowValues_iff:
  "flagsFollowValues r = (\<forall>habit. completedHabits r habit = isHabitCompleted habit (habitValue r habit))"
  by (simp add: flagsFollowValues_def habits_def all_habits)

lemma areAllHabitsCompleted_iff:
  "areAllHabitsCompleted r = (\<forall>habit. completedHabits r habit)"
  by (simp add: areAllHabitsCompleted_def habits_def all_habits)

lemma calculateDayScore_score_field [simp]:
  "calculateDayScore (r\<lparr>score := s\<rparr>) = calculateDayScore r"
  "calculateDayScore (r\<lparr>completed := c\<rparr>) = calculateDayScore r"
  by (simp_all add: calculateDayScore_unfold)

lemma calculateDayScore_flags:
  assumes "flagsFollowValues r"
  shows "calculateDayScore r =
           sum_list (map (\<lambda>habit. if completedHabits r habit then POINTS_PER_HABIT else 0) habits)"
  using assms
  by (simp add: flagsFollowValues_iff calculateDayScore_unfold habits_def POINTS_PER_HABIT_def)

lemma calculateDayScore_range:
  "0 \<le> calculateDayScore r" "calculateDayScore r \<le> 100" "20 dvd calculateDayScore r"
  by (simp_all add: calculateDayScore_unfold)

lemma calculateDayScore_full:
  "(calculateDayScore r = 100) = (\<forall>habit. isHabitCompleted habit (habitValue r habit))"
  by (simp add: calculateDayScore_unfold all_habits)

section \<open>Saving a habit and completing the day\<close>

lemma getCurrentDayData_Some:
  "days a (currentDay a) = Some r \<Longrightarrow> getCurrentDayData a = (r, a)"
  by (simp add: getCurrentDayData_def)

lemma getCurrentDayData_None:
  "days a (currentDay a) = None \<Longrightarrow>
   getCurrentDayData a = (defaultDayData, a\<lparr>days := (days a)(currentDay a \<mapsto> defaultDayData)\<rparr>)"
  by (simp add: getCurrentDayData_def)

lemma getCurrentDayData_snd:
  "snd (getCurrentDayData a) = a\<lparr>days := (days a)(currentDay a \<mapsto> fst (getCurrentDayData a))\<rparr>"
  by (cases "days a (currentDay a)") (simp_all add: getCurrentDayData_def map_upd_triv)

lemma completeCurrentDay_eq:
  "completeCurrentDay a =
     a\<lparr>days := (days a)(currentDay a \<mapsto> (fst (getCurrentDayData a))\<lparr>completed := True\<rparr>),
       streak := streak a + 1,
       currentDay := (if currentDay a < 100 then currentDay a + 1 else currentDay a)\<rparr>"
  by (cases "days a (currentDay a)") (simp_all add: completeCurrentDay_def getCurrentDayData_def)

lemma fst_getCurrentDayData:
  "fst (getCurrentDayData a) =
     (case days a (currentDay a) of None \<Rightarrow> defaultDayData | Some r \<Rightarrow> r)"
  by (simp add: getCurrentDayData_def split: option.splits)

lemma js_ge_zero: "js_ge v (Finite 0) = (\<not> isNaN v \<and> \<not> js_lt v (Finite 0))"
  by (cases v) (auto simp: js_ge_def isNaN_def)


lemma saveHabit_cases:
  "saveHabit habit input a =
     (case input of
        None \<Rightarrow> (InputNotFound, a)
      | Some v \<Rightarrow>
          if \<not> js_ge v (Finite 0) then (InvalidInput, a)
          else if dayIsCompleted a (currentDay a) then (DayLocked, a)
          else
            (let r0 = fst (getCurrentDayData a);
                 r1 = r0\<lparr>habitValue := (habitValue r0)(habit := Some v),
                         completedHabits := (completedHabits r0)(habit := isHabitCompleted habit (Some v))\<rparr>;
                 r = r1\<lparr>score := calculateDayScore r1\<rparr>;
                 a2 = a\<lparr>days := (days a)(currentDay a \<mapsto> r)\<rparr>
             in if areAllHabitsCompleted r
                then (DayCompleted, completeCurrentDay a2)
                else (HabitSaved (isHabitCompleted habit (Some v)), a2)))"
  by (cases "days a (currentDay a)")
     (auto simp: saveHabit_def js_ge_zero getCurrentDayData_def dayIsCompleted_def Let_def
           defaultDayData_def split: option.splits)

lemma areAll_allDone: "areAllHabitsCompleted allDoneRecord"
  by (simp add: areAllHabitsCompleted_def habits_def allDoneRecord_def)

lemma saveHabit_sleep_fresh:
  "saveHabit Sleep (Some (Finite 8)) freshAppData =
     (HabitSaved True,
      freshAppData\<lparr>days := [1 \<mapsto>
        defaultDayData\<lparr>habitValue := (\<lambda>habit. None)(Sleep := Some (Finite 8)),
                       completedHabits := (\<lambda>habit. False)(Sleep := True),
                       score := 20\<rparr>]\<rparr>)"
  by (simp add: saveHabit_cases js_ge_def dayIsCompleted_def freshAppData_def Let_def
      getCurrentDayData_def defaultDayData_def areAllHabitsCompleted_def habits_def
      isHabitCompleted_Some calculateDayScore_unfold)

text \<open>
  C1. When the current day's record has all five habits completed, \<open>completeCurrentDay\<close>
  marks that record completed and changes no other record, adds exactly 1 to the streak
  whatever the history of the other days is, and moves the current day forward by 1 when
  it is below 100. On day 100 the current day stays 100 and no record for day 101
  appears, neither in the call nor in the delayed \<open>loadCurrentDayUI\<close> that follows it.
\<close>

theorem completeCurrentDay_effect:
  assumes "days appData (currentDay appData) = Some dayData"
    and "areAllHabitsCompleted dayData"
  shows "days (completeCurrentDay appData) =
           (days appData)(currentDay appData \<mapsto> dayData\<lparr>completed := True\<rparr>) \<and>
         streak (completeCurrentDay appData) = streak appData + 1 \<and>
         (currentDay appData < 100 \<longrightarrow>
            currentDay (completeCurrentDay appData) = currentDay appData + 1) \<and>
         (currentDay appData = 100 \<longrightarrow>
            currentDay (completeCurrentDay appData) = 100 \<and>
            days (completeCurrentDay appData) 101 = days appData 101 \<and>
            days (loadCurrentDayUI (completeCurrentDay appData)) 101 = days appData 101)"
  using assms(1)
  by (simp add: completeCurrentDay_eq getCurrentDayData_Some loadCurrentDayUI_def getCurrentDayData_def)

theorem completeCurrentDay_effect_witness:
  "days lastDayDone (currentDay lastDayDone) = Some allDoneRecord \<and>
   areAllHabitsCompleted allDoneRecord \<and>
   dayIsCompleted (completeCurrentDay lastDayDone) 100 \<and>
   streak (completeCurrentDay lastDayDone) = 100 \<and>
   currentDay (completeCurrentDay lastDayDone) = 100 \<and>
   days (completeCurrentDay lastDayDone) 101 = None \<and>
   days (loadCurrentDayUI (completeCurrentDay lastDayDone)) 101 = None \<and>
   days thirdDayDone (currentDay thirdDayDone) = Some allDoneRecord \<and>
   dayIsCompleted (completeCurrentDay thirdDayDone) 3 \<and>
   streak (completeCurrentDay thirdDayDone) = 3 \<and>
   currentDay (completeCurrentDay thirdDayDone) = 4"
proof -
  have h1: "days lastDayDone (currentDay lastDayDone) = Some allDoneRecord"
    by (simp add: lastDayDone_def)
  have h2: "days thirdDayDone (currentDay thirdDayDone) = Some allDoneRecord"
    by (simp add: thirdDayDone_def)
  have c1: "currentDay lastDayDone = 100" "streak lastDayDone = 99" "days lastDayDone 101 = None"
    by (simp_all add: lastDayDone_def)
  have c2: "currentDay thirdDayDone = 3" "streak thirdDayDone = 2"
    by (simp_all add: thirdDayDone_def)
  show ?thesis
    using h1 h2 areAll_allDone
      completeCurrentDay_effect [OF h1 areAll_allDone]
      completeCurrentDay_effect [OF h2 areAll_allDone]
    by (simp add: c1 c2 dayIsCompleted_def)
qed

text \<open>
  C4 as stated fails: on a locked day an input that is not a valid number is turned away
  by the validation, which comes first, so the outcome is \<open>InvalidInput\<close> and not
  \<open>DayLocked\<close>.
\<close>

theorem saveHabit_locked_counterexample:
  "dayIsCompleted lastDayLocked (currentDay lastDayLocked) \<and>
   fst (saveHabit Sleep (Some NaN) lastDayLocked) = InvalidInput \<and>
   fst (saveHabit Sleep (Some NaN) lastDayLocked) \<noteq> DayLocked"
  by (simp add: saveHabit_def lastDayLocked_def dayIsCompleted_def isNaN_def)

text \<open>
  C4, amended. When the current day's record is completed, \<open>saveHabit\<close> leaves the whole
  state unchanged for every habit and every input (so the record keeps its values, its
  completed habits, its score and its completed mark); it ends in \<open>DayLocked\<close> for every
  input that passes the validation, in \<open>InvalidInput\<close> for one that does not, and in
  \<open>InputNotFound\<close> when the input element is missing.
\<close>

theorem saveHabit_locked:
  assumes "days appData (currentDay appData) = Some dayData" and "completed dayData"
  shows "fst (saveHabit habit input appData) =
           (case input of
              None \<Rightarrow> InputNotFound
            | Some v \<Rightarrow> if isNaN v \<or> js_lt v (Finite 0) then InvalidInput else DayLocked) \<and>
         snd (saveHabit habit input appData) = appData"
  using assms
  by (simp add: saveHabit_def getCurrentDayData_Some split: option.splits)

theorem saveHabit_locked_witness:
  "days lastDayLocked (currentDay lastDayLocked) = Some (allDoneRecord\<lparr>completed := True\<rparr>) \<and>
   completed (allDoneRecord\<lparr>completed := True\<rparr>) \<and>
   saveHabit Food (Some (Finite 1500)) lastDayLocked = (DayLocked, lastDayLocked) \<and>
   saveHabit Food (Some (Finite (- 1))) lastDayLocked = (InvalidInput, lastDayLocked)"
proof -
  have h1: "days lastDayLocked (currentDay lastDayLocked) = Some (allDoneRecord\<lparr>completed := True\<rparr>)"
    by (simp add: lastDayLocked_def)
  have h2: "completed (allDoneRecord\<lparr>completed := True\<rparr>)"
    by simp
  show ?thesis
    using h1 saveHabit_locked [OF h1 h2, of Food "Some (Finite 1500)"]
      saveHabit_locked [OF h1 h2, of Food "Some (Finite (- 1))"]
    by (simp add: isNaN_def prod_eq_iff)
qed




text \<open>
  C10. On a day that is not completed and for an input that passes the validation,
  \<open>saveHabit habit\<close> leaves the current day's record with the values and completion
  flags of the four other habits as they were (as in the default record when the day had
  none), changes no other day's record and not the motivation text; the streak or the
  current day change only when the record ends with all five habits completed, which is
  when \<open>completeCurrentDay\<close> runs.
\<close>

theorem saveHabit_frame:
  assumes "\<not> dayIsCompleted appData (currentDay appData)"
    and "js_ge v (Finite 0)"
  shows "\<exists>dayData'.
           days (snd (saveHabit habit (Some v) appData)) (currentDay appData) = Some dayData' \<and>
           (\<forall>other. other \<noteq> habit \<longrightarrow>
              habitValue dayData' other = habitValue (fst (getCurrentDayData appData)) other \<and>
              completedHabits dayData' other =
                completedHabits (fst (getCurrentDayData appData)) other) \<and>
           (\<forall>d. d \<noteq> currentDay appData \<longrightarrow>
              days (snd (saveHabit habit (Some v) appData)) d = days appData d) \<and>
           whyStarted (snd (saveHabit habit (Some v) appData)) = whyStarted appData \<and>
           (streak (snd (saveHabit habit (Some v) appData)) \<noteq> streak appData \<or>
            currentDay (snd (saveHabit habit (Some v) appData)) \<noteq> currentDay appData \<longrightarrow>
              areAllHabitsCompleted dayData' \<and>
              fst (saveHabit habit (Some v) appData) = DayCompleted)"
  using assms
  by (simp add: saveHabit_cases Let_def completeCurrentDay_eq getCurrentDayData_def
      areAllHabitsCompleted_def)

theorem saveHabit_frame_witness:
  "\<not> dayIsCompleted freshAppData (currentDay freshAppData) \<and>
   js_ge (Finite 8) (Finite 0) \<and>
   fst (saveHabit Sleep (Some (Finite 8)) freshAppData) = HabitSaved True \<and>
   streak (snd (saveHabit Sleep (Some (Finite 8)) freshAppData)) = 0 \<and>
   currentDay (snd (saveHabit Sleep (Some (Finite 8)) freshAppData)) = 1 \<and>
   days (snd (saveHabit Sleep (Some (Finite 8)) freshAppData)) 2 = None \<and>
   whyStarted (snd (saveHabit Sleep (Some (Finite 8)) freshAppData)) = []"
proof -
  have h1: "\<not> dayIsCompleted freshAppData (currentDay freshAppData)"
    by (simp add: dayIsCompleted_def freshAppData_def)
  have h2: "js_ge (Finite 8) (Finite 0)"
    by simp
  have o: "fst (saveHabit Sleep (Some (Finite 8)) freshAppData) = HabitSaved True"
    by (simp add: saveHabit_sleep_fresh)
  have f: "currentDay freshAppData = 1" "streak freshAppData = 0" "days freshAppData 2 = None"
    "whyStarted freshAppData = []"
    by (simp_all add: freshAppData_def)
  from saveHabit_frame [OF h1 h2, of Sleep] obtain dayData' where
    "\<forall>d. d \<noteq> currentDay freshAppData \<longrightarrow>
       days (snd (saveHabit Sleep (Some (Finite 8)) freshAppData)) d = days freshAppData d"
    "whyStarted (snd (saveHabit Sleep (Some (Finite 8)) freshAppData)) = whyStarted freshAppData"
    "streak (snd (saveHabit Sleep (Some (Finite 8)) freshAppData)) \<noteq> streak freshAppData \<or>
     currentDay (snd (saveHabit Sleep (Some (Finite 8)) freshAppData)) \<noteq> currentDay freshAppData \<longrightarrow>
       areAllHabitsCompleted dayData' \<and>
       fst (saveHabit Sleep (Some (Finite 8)) freshAppData) = DayCompleted"
    by blast
  with h1 h2 o f show ?thesis
    by auto
qed

text \<open>
  C8. A day whose record is marked completed stays marked completed under \<open>saveHabit\<close>,
  \<open>completeCurrentDay\<close>, \<open>updateStreak\<close>, the default creation of \<open>loadCurrentDayUI\<close> and
  \<open>saveWhy\<close>, from every state (the reachable ones among them). \<open>restartChallenge\<close>
  either is declined and changes nothing, or discards all day records; it does the
  latter whenever the user confirms or is not asked.
\<close>

theorem completed_monotonic:
  assumes "dayIsCompleted appData d"
  shows "dayIsCompleted (snd (saveHabit habit input appData)) d \<and>
         dayIsCompleted (completeCurrentDay appData) d \<and>
         dayIsCompleted (updateStreak appData) d \<and>
         dayIsCompleted (loadCurrentDayUI appData) d \<and>
         dayIsCompleted (saveWhy w appData) d \<and>
         (restartChallenge answerRestart answerKeep appData = appData \<or>
          days (restartChallenge answerRestart answerKeep appData) = Map.empty) \<and>
         days (restartChallenge True answerKeep appData) = Map.empty"
proof -
  have 1: "dayIsCompleted (completeCurrentDay a) d" if "dayIsCompleted a d" for a
    using that
    by (auto simp: completeCurrentDay_eq dayIsCompleted_def fst_getCurrentDayData
        split: option.splits)
  have 2: "dayIsCompleted (snd (saveHabit habit input appData)) d"
  proof (cases "d = currentDay appData")
    case True
    with assms show ?thesis
      by (auto simp: saveHabit_cases split: option.splits)
  next
    case False
    with assms have "dayIsCompleted
        (appData\<lparr>days := (days appData)(currentDay appData \<mapsto> r)\<rparr>) d" for r
      by (simp add: dayIsCompleted_def)
    with assms show ?thesis
      by (auto simp: saveHabit_cases Let_def 1 split: option.splits)
  qed
  have 3: "dayIsCompleted (updateStreak appData) d" "dayIsCompleted (saveWhy w appData) d"
    using assms by (simp_all add: updateStreak_def saveWhy_def dayIsCompleted_def split: option.splits)
  have 4: "dayIsCompleted (loadCurrentDayUI appData) d"
    using assms
    by (cases "days appData (currentDay appData)")
       (auto simp: loadCurrentDayUI_def getCurrentDayData_def dayIsCompleted_def)
  have 5: "restartChallenge answerRestart answerKeep appData = appData \<or>
          days (restartChallenge answerRestart answerKeep appData) = Map.empty"
     "days (restartChallenge True answerKeep appData) = Map.empty"
    by (simp_all add: restartChallenge_def Let_def)
  from 1 [OF assms] 2 3 4 5 show ?thesis by blast
qed

theorem completed_monotonic_witness:
  "dayIsCompleted lastDayLocked 100 \<and>
   dayIsCompleted (snd (saveHabit Sleep (Some (Finite 3)) lastDayLocked)) 100 \<and>
   dayIsCompleted (completeCurrentDay lastDayLocked) 100 \<and>
   dayIsCompleted (updateStreak lastDayLocked) 100 \<and>
   days (restartChallenge True True lastDayLocked) = Map.empty"
proof -
  have h: "dayIsCompleted lastDayLocked 100"
    by (simp add: dayIsCompleted_def lastDayLocked_def)
  from completed_monotonic [OF h, of Sleep "Some (Finite 3)" None True True] h show ?thesis
    by simp
qed

section \<open>Recomputing the streak\<close>

lemma streakLoop_step:
  "streakLoop ds day n =
     (if day \<ge> 1 \<and> completedAt ds day then streakLoop ds (day - 1) (n + 1) else n)"
  by (subst streakLoop.simps) (simp add: completedAt_def split: option.splits)

lemma streakLoop_run:
  "streakLoop ds day n \<ge> n \<and>
   streakLoop ds day n - n \<le> max 0 day \<and>
   (\<forall>i. 0 \<le> i \<and> i < streakLoop ds day n - n \<longrightarrow>
      completedAt ds (day - i)) \<and>
   (streakLoop ds day n - n < day \<longrightarrow>
      \<not> completedAt ds (day - (streakLoop ds day n - n)))"
proof (induction ds day n rule: streakLoop.induct)
  case (1 ds day n)
  show ?case
  proof (cases "day \<ge> 1 \<and> completedAt ds day")
    case False
    then have "streakLoop ds day n = n"
      by (subst streakLoop_step) auto
    with False show ?thesis by auto
  next
    case True
    then obtain r where r: "day \<ge> 1" "ds day = Some r" "completed r"
      by (auto simp: completedAt_def split: option.splits)
    from True have eq: "streakLoop ds day n = streakLoop ds (day - 1) (n + 1)"
      by (subst streakLoop_step) simp
    note IH = "1.IH" [OF r(1) r(2) r(3)]
    define k where "k = streakLoop ds (day - 1) (n + 1) - (n + 1)"
    have k: "0 \<le> k" "k \<le> max 0 (day - 1)"
      "\<forall>i. 0 \<le> i \<and> i < k \<longrightarrow> completedAt ds (day - 1 - i)"
      "k < day - 1 \<longrightarrow> \<not> completedAt ds (day - 1 - k)"
      using IH by (simp_all add: k_def)
    have s: "streakLoop ds day n - n = k + 1"
      by (simp add: eq k_def)
    have run: "completedAt ds (day - i)"
      if "0 \<le> i" "i < k + 1" for i
    proof (cases "i = 0")
      case True
      with r show ?thesis by (simp add: completedAt_def)
    next
      case False
      with that have "0 \<le> i - 1 \<and> i - 1 < k" by simp
      with k(3) have "completedAt ds (day - 1 - (i - 1))"
        by blast
      then show ?thesis by simp
    qed
    have stop: "\<not> completedAt ds (day - (k + 1))"
      if "k + 1 < day"
    proof -
      from that have "k < day - 1" by simp
      with k(4) have "\<not> completedAt ds (day - 1 - k)"
        by blast
      moreover have "day - 1 - k = day - (k + 1)" by simp
      ultimately show ?thesis by simp
    qed
    from k(1) k(2) r(1) have "n \<le> streakLoop ds day n" "k + 1 \<le> max 0 day"
      using s by simp_all
    with run stop show ?thesis
      unfolding s by blast
  qed
qed

text \<open>
  C3 as stated fails in its example: with days 1 to 3 completed, the current day 4 and
  no record for day 4, the walk looks at day 4 first, finds no record and stops, so the
  streak becomes 0 and not 3.
\<close>

theorem updateStreak_example_counterexample:
  "currentDay threeDaysThenFourth = 4 \<and>
   dayIsCompleted threeDaysThenFourth 1 \<and>
   dayIsCompleted threeDaysThenFourth 2 \<and>
   dayIsCompleted threeDaysThenFourth 3 \<and>
   days threeDaysThenFourth 4 = None \<and>
   streak (updateStreak threeDaysThenFourth) = 0 \<and>
   streak (updateStreak threeDaysThenFourth) \<noteq> 3"
  by (simp add: updateStreak_def threeDaysThenFourth_def dayIsCompleted_def completedDay_def
      streakLoop.simps)

text \<open>
  C3, amended. \<open>updateStreak\<close> sets the streak to the length of the longest run of days
  \<open>currentDay\<close>, \<open>currentDay - 1\<close>, ... (not going below day 1) whose records exist and
  are completed: every day of the run is completed, and the day where the run stops, if
  it is still a day from 1 up, has no record or an incomplete one. Nothing else in the
  state changes. On the state with days 1 to 3 completed, the current day 4 and no
  record for day 4, the streak becomes 0.
\<close>

theorem updateStreak_run:
  "0 \<le> streak (updateStreak appData) \<and>
   streak (updateStreak appData) \<le> max 0 (currentDay appData) \<and>
   (\<forall>i. 0 \<le> i \<and> i < streak (updateStreak appData) \<longrightarrow>
      dayIsCompleted appData (currentDay appData - i)) \<and>
   (streak (updateStreak appData) < currentDay appData \<longrightarrow>
      \<not> dayIsCompleted appData (currentDay appData - streak (updateStreak appData))) \<and>
   currentDay (updateStreak appData) = currentDay appData \<and>
   days (updateStreak appData) = days appData \<and>
   whyStarted (updateStreak appData) = whyStarted appData \<and>
   streak (updateStreak threeDaysThenFourth) = 0"
proof -
  have ex: "streak (updateStreak threeDaysThenFourth) = 0"
    by (simp add: updateStreak_def threeDaysThenFourth_def streakLoop.simps)
  show ?thesis
    using streakLoop_run [of 0 "days appData" "currentDay appData"] ex
    by (simp add: updateStreak_def dayIsCompleted_def completedAt_def)
qed

theorem updateStreak_run_witness:
  "streak (updateStreak threeDaysOnThird) = 3 \<and>
   dayIsCompleted threeDaysOnThird 3 \<and>
   dayIsCompleted threeDaysOnThird 2 \<and>
   dayIsCompleted threeDaysOnThird 1 \<and>
   \<not> dayIsCompleted threeDaysOnThird 0"
proof -
  have s: "streak (updateStreak threeDaysOnThird) = 3"
    by (simp add: updateStreak_def threeDaysOnThird_def threeDaysThenFourth_def completedDay_def
        streakLoop.simps)
  have c: "currentDay threeDaysOnThird = 3"
    by (simp add: threeDaysOnThird_def)
  have z: "\<not> dayIsCompleted threeDaysOnThird 0"
    by (simp add: dayIsCompleted_def threeDaysOnThird_def threeDaysThenFourth_def)
  from updateStreak_run [of threeDaysOnThird]
  have "\<forall>i. 0 \<le> i \<and> i < 3 \<longrightarrow> dayIsCompleted threeDaysOnThird (3 - i)"
    unfolding s c by blast
  note run = this [rule_format]
  have "dayIsCompleted threeDaysOnThird 3" "dayIsCompleted threeDaysOnThird 2"
    "dayIsCompleted threeDaysOnThird 1"
    using run [of 0] run [of 1] run [of 2] by simp_all
  with s z show ?thesis by simp
qed

section \<open>Scores and completion flags across a reload\<close>

lemma sleepInfinityReloaded_eq:
  "sleepInfinityReloaded =
     freshAppData\<lparr>days := [1 \<mapsto>
       defaultDayData\<lparr>completedHabits := (\<lambda>habit. False)(Sleep := True), score := 20\<rparr>]\<rparr>"
proof -
  have 1: "sleepInfinity =
      freshAppData\<lparr>days := [1 \<mapsto>
        defaultDayData\<lparr>habitValue := (\<lambda>habit. None)(Sleep := Some PosInfinity),
                       completedHabits := (\<lambda>habit. False)(Sleep := True),
                       score := 20\<rparr>]\<rparr>"
    by (simp add: sleepInfinity_def saveHabit_cases js_ge_def dayIsCompleted_def freshAppData_def
        Let_def getCurrentDayData_def defaultDayData_def areAllHabitsCompleted_def habits_def
        isHabitCompleted_Some calculateDayScore_unfold)
  have 3: "saveData sleepInfinity =
      freshAppData\<lparr>days := [1 \<mapsto>
        defaultDayData\<lparr>completedHabits := (\<lambda>habit. False)(Sleep := True), score := 20\<rparr>]\<rparr>"
    unfolding 1
    by (simp add: saveData_def storedDayData_def storedNumber_def defaultDayData_def
        freshAppData_def fun_eq_iff)
  show ?thesis
    unfolding sleepInfinityReloaded_def 3
    by (simp add: init_def Let_def freshAppData_def updateStreak_def streakLoop.simps
        loadCurrentDayUI_def getCurrentDayData_def defaultDayData_def)
qed

text \<open>
  C6. The invariant that a record's score is 20 for each set completion flag fails on a
  state the script reaches from the fresh one. After the sleep field was saved with the
  text \<open>Infinity\<close>, the page reloaded and the water field saved with 8, the record of
  day 1 has the flags of sleep and water set, which count 40, and the score 20: the
  infinite value was stored as \<open>null\<close>, the flag stayed, and the score was recomputed from
  the values.
\<close>

theorem reload_breaks_score:
  "reachable thenWater \<and>
   map_option (\<lambda>dayData. completedHabits dayData Sleep) (days thenWater 1) = Some True \<and>
   map_option (\<lambda>dayData. completedHabits dayData Water) (days thenWater 1) = Some True \<and>
   map_option (\<lambda>dayData. habitValue dayData Sleep) (days thenWater 1) = Some None \<and>
   map_option score (days thenWater 1) = Some 20 \<and>
   map_option (\<lambda>dayData.
       sum_list (map (\<lambda>habit. if completedHabits dayData habit then POINTS_PER_HABIT else 0) habits))
     (days thenWater 1) = Some 40"
proof -
  have r: "reachable thenWater"
    unfolding thenWater_def sleepInfinityReloaded_def sleepInfinity_def
    by (intro reachable.save reachable.reload reachable.fresh)
  have w: "thenWater =
      freshAppData\<lparr>days := [1 \<mapsto>
        defaultDayData\<lparr>habitValue := (\<lambda>habit. None)(Water := Some (Finite 8)),
                       completedHabits := (\<lambda>habit. False)(Sleep := True, Water := True),
                       score := 20\<rparr>]\<rparr>"
    unfolding thenWater_def sleepInfinityReloaded_eq
    by (simp add: saveHabit_cases dayIsCompleted_def freshAppData_def
        Let_def getCurrentDayData_def defaultDayData_def areAllHabitsCompleted_def habits_def
        isHabitCompleted_Some calculateDayScore_unfold)
  show ?thesis
    using r by (simp add: w freshAppData_def habits_def POINTS_PER_HABIT_def)
qed

text \<open>
  C7 as stated fails for a record whose flags do not follow its values:
  \<open>calculateDayScore\<close> reads the values and \<open>areAllHabitsCompleted\<close> reads the flags, so
  the record with every flag set and no value scores 0 with all habits completed.
\<close>

theorem calculateDayScore_properties_counterexample:
  "areAllHabitsCompleted flagsOnlyRecord \<and>
   calculateDayScore flagsOnlyRecord = 0 \<and>
   calculateDayScore flagsOnlyRecord \<noteq> 100"
  by (simp add: flagsOnlyRecord_def defaultDayData_def areAllHabitsCompleted_def habits_def
      calculateDayScore_unfold)

text \<open>
  C7, amended. For every day record, \<open>calculateDayScore\<close> is a multiple of 20 between 0
  and 100. For every record whose completion flags follow its values, that is, each
  flag is what \<open>isHabitCompleted\<close> gives on the stored value, the score is 100 exactly
  when \<open>areAllHabitsCompleted\<close> holds.
\<close>

theorem calculateDayScore_properties:
  "0 \<le> calculateDayScore dayData \<and>
   calculateDayScore dayData \<le> MAX_SCORE \<and>
   POINTS_PER_HABIT dvd calculateDayScore dayData \<and>
   (flagsFollowValues dayData \<longrightarrow>
      (calculateDayScore dayData = MAX_SCORE) = areAllHabitsCompleted dayData)"
proof -
  have "(calculateDayScore dayData = MAX_SCORE) = areAllHabitsCompleted dayData"
    if "flagsFollowValues dayData"
    using that
    by (simp add: calculateDayScore_full MAX_SCORE_def areAllHabitsCompleted_iff
        flagsFollowValues_iff)
  with calculateDayScore_range [of dayData] show ?thesis
    by (simp add: MAX_SCORE_def POINTS_PER_HABIT_def)
qed

theorem calculateDayScore_properties_witness:
  "flagsFollowValues allDoneRecord \<and>
   calculateDayScore allDoneRecord = 100 \<and>
   areAllHabitsCompleted allDoneRecord \<and>
   flagsFollowValues (allDoneRecord\<lparr>habitValue := (habitValue allDoneRecord)(Food := Some (Finite 2600)),
                                     completedHabits := (completedHabits allDoneRecord)(Food := False)\<rparr>) \<and>
   calculateDayScore (allDoneRecord\<lparr>habitValue := (habitValue allDoneRecord)(Food := Some (Finite 2600)),
                                     completedHabits := (completedHabits allDoneRecord)(Food := False)\<rparr>) = 80 \<and>
   \<not> areAllHabitsCompleted (allDoneRecord\<lparr>habitValue := (habitValue allDoneRecord)(Food := Some (Finite 2600)),
                                     completedHabits := (completedHabits allDoneRecord)(Food := False)\<rparr>)"
proof -
  define overFed where "overFed =
    allDoneRecord\<lparr>habitValue := (habitValue allDoneRecord)(Food := Some (Finite 2600)),
                  completedHabits := (completedHabits allDoneRecord)(Food := False)\<rparr>"
  have f: "flagsFollowValues allDoneRecord" "flagsFollowValues overFed"
    by (simp_all add: overFed_def flagsFollowValues_def habits_def allDoneRecord_def
        isHabitCompleted_Some)
  have a: "areAllHabitsCompleted allDoneRecord" "\<not> areAllHabitsCompleted overFed"
    by (simp_all add: overFed_def areAllHabitsCompleted_def habits_def allDoneRecord_def)
  have s: "calculateDayScore overFed = 80"
    by (simp add: overFed_def calculateDayScore_unfold allDoneRecord_def isHabitCompleted_Some)
  from calculateDayScore_properties [of allDoneRecord] f(1) a(1)
  have "calculateDayScore allDoneRecord = 100"
    by (simp add: MAX_SCORE_def)
  with f a s show ?thesis
    unfolding overFed_def by simp
qed

section \<open>Loading\<close>

text \<open>
  C9. \<open>init\<close> does not bring every stored current day into the days of the challenge:
  its guard tests the lower bound only, so a stored current day of 101 stays 101 and
  \<open>init\<close> then creates a record for day 101, while a stored day of 0 and a stored streak
  of -2 are replaced by 1 and 0.
\<close>

theorem init_keeps_day_past_hundred:
  "currentDay (init storedPastHundred) = 101 \<and>
   \<not> currentDay (init storedPastHundred) \<le> 100 \<and>
   days (init storedPastHundred) 101 = Some defaultDayData \<and>
   currentDay (init storedDayZero) = 1 \<and>
   streak (init storedDayZero) = 0"
  by (simp add: init_def Let_def storedPastHundred_def storedDayZero_def updateStreak_def
      streakLoop.simps loadCurrentDayUI_def getCurrentDayData_def)

end
